theory Spec2Isabelle
  imports Main
begin

section \<open>The packaging manifest \<open>python/setup.py\<close>\<close>

text \<open>
  The repository's only source file is a setuptools manifest: one import and one call of
  \<open>setup\<close> with keyword arguments. Two of the arguments are computed when the manifest is
  evaluated (\<open>long_description\<close> reads \<open>README.md\<close>, \<open>packages\<close> asks \<open>find_packages\<close>), the
  others are literals.

  The manifest is embedded twice. The shallow embedding \<open>setup_py\<close> is a function from the
  build environment to either the exception that stops the evaluation or the keyword
  arguments with which \<open>setup\<close> is called. The syntax tree \<open>setup_module\<close> is the file as
  text, for the claims that are about what the file contains; \<open>exec_module\<close> evaluates the
  tree and is shown to agree with \<open>setup_py\<close>.
\<close>

subsection \<open>The build environment\<close>

text \<open>
  The exceptions of the model. The manifest handles none, so whatever is raised while it
  is evaluated ends the evaluation. \<open>OSError\<close> carries its \<open>errno\<close>, and \<open>OtherException\<close> the
  name of any class not listed. \<open>NameError\<close>, \<open>AttributeError\<close> and \<open>TypeError\<close> are raised by
  the evaluator of the syntax tree on trees other than the manifest's; \<open>NotModelled\<close> is its
  answer to a statement it gives no meaning to.
\<close>

datatype py_error =
    ModuleNotFoundError
  | ImportError
  | FileNotFoundError
  | IsADirectoryError
  | PermissionError
  | OSError nat
  | UnicodeDecodeError
  | NameError
  | AttributeError
  | TypeError
  | OtherException string
  | NotModelled

text \<open>
  An entry of the working directory: a file that \<open>open\<close> opens for reading, with its bytes,
  or an entry that \<open>open\<close> refuses, with the exception it raises: \<open>IsADirectoryError\<close> for a
  directory, \<open>PermissionError\<close> for a file the building process may not read, a plain
  \<open>OSError\<close> for a loop of symbolic links or a socket, and so on.
\<close>

datatype node = Regular (bytes: string) | Unopenable (refusal: py_error)

text \<open>
  \<open>import_setuptools\<close> is what line 1, \<open>from setuptools import setup, find_packages\<close>, does in
  this run: it raises (\<open>ModuleNotFoundError\<close> when setuptools is not installed,
  \<open>ImportError\<close> when it lacks one of the two names, or anything its import raises), or it
  binds the two names, and then the value is the function \<open>find_packages\<close> as it answers
  in this run, by its argument \<open>where\<close> (setuptools is not part of the repository; it walks
  the directory tree of the run). \<open>cwd_files\<close> is the working directory, by path.
  \<open>text_decode\<close> is what \<open>read()\<close> makes of a file's bytes in this run, in the default text
  encoding of the run, newline translation included: the text, or the exception it raises
  (\<open>UnicodeDecodeError\<close> for bytes the encoding does not decode).
\<close>

record build_env =
  import_setuptools :: "py_error + (string \<Rightarrow> string list)"
  cwd_files :: "string \<rightharpoonup> node"
  text_decode :: "string \<Rightarrow> py_error + string"

text \<open>\<open>open(path)\<close>: the open file, here the bytes it will read.\<close>

definition open_file :: "build_env \<Rightarrow> string \<Rightarrow> py_error + string" where
  "open_file env path =
     (case cwd_files env path of
        None \<Rightarrow> Inl FileNotFoundError
      | Some (Unopenable e) \<Rightarrow> Inl e
      | Some (Regular bs) \<Rightarrow> Inr bs)"

text \<open>\<open>f.read()\<close> on a file opened in text mode.\<close>

definition file_read :: "build_env \<Rightarrow> string \<Rightarrow> py_error + string" where
  "file_read env bs = text_decode env bs"

text \<open>\<open>open(path).read()\<close>\<close>

definition open_read :: "build_env \<Rightarrow> string \<Rightarrow> py_error + string" where
  "open_read env path =
     (case open_file env path of
        Inl e \<Rightarrow> Inl e
      | Inr bs \<Rightarrow> file_read env bs)"

subsection \<open>The keyword arguments of \<open>setup\<close>\<close>

text \<open>A dict literal is an association list, in the order of the source.\<close>

record setup_args =
  name :: string
  version :: string
  description :: string
  long_description :: string
  long_description_content_type :: string
  author :: string
  python_requires :: string
  packages :: "string list"
  package_dir :: "(string \<times> string) list"
  install_requires :: "string list"
  extras_require :: "(string \<times> string list) list"
  entry_points :: "(string \<times> string list) list"
  classifiers :: "string list"

text \<open>
  The call of \<open>setup\<close>, given the values of its two computed arguments: \<open>readme\<close> for
  \<open>open("README.md").read()\<close> and \<open>found\<close> for \<open>find_packages(where="python")\<close>.
\<close>

definition setup_call :: "string \<Rightarrow> string list \<Rightarrow> setup_args" where
  "setup_call readme found =
     \<lparr> name = ''api-doc-gen-python'',
       version = ''1.0.0'',
       description = ''Python parser module for API Documentation Generator'',
       long_description = readme,
       long_description_content_type = ''text/markdown'',
       author = ''API Documentation Generator Team'',
       python_requires = ''>=3.9'',
       packages = found,
       package_dir = [('''', ''python'')],
       install_requires =
         [ ''docstring-parser>=0.15'',
           ''pydoc-markdown>=4.8.0'',
           ''typing-extensions>=4.7.0'',
           ''pydantic>=2.4.0'',
           ''click>=8.1.0'' ],
       extras_require =
         [ (''dev'',
            [ ''pytest>=7.4.0'',
              ''pytest-cov>=4.1.0'',
              ''black>=23.7.0'',
              ''flake8>=6.0.0'',
              ''mypy>=1.5.0'',
              ''isort>=5.12.0'',
              ''pre-commit>=3.4.0'' ]) ],
       entry_points =
         [ (''console_scripts'',
            [ ''api-doc-gen-python=api_doc_gen_python.cli:main'' ]) ],
       classifiers =
         [ ''Development Status :: 4 - Beta'',
           ''Intended Audience :: Developers'',
           ''License :: OSI Approved :: MIT License'',
           ''Operating System :: OS Independent'',
           ''Programming Language :: Python :: 3'',
           ''Programming Language :: Python :: 3.9'',
           ''Programming Language :: Python :: 3.10'',
           ''Programming Language :: Python :: 3.11'',
           ''Programming Language :: Python :: 3.12'',
           ''Topic :: Software Development :: Documentation'' ] \<rparr>"

text \<open>
  The manifest, top to bottom: the import of line 1, then the keyword arguments in the
  order they are written (Python evaluates them left to right, so \<open>README.md\<close> is read
  before \<open>find_packages\<close> is called), then the call. What \<open>setup\<close> does with the arguments
  is setuptools' business and not modelled: the result is the arguments it receives.
\<close>

definition setup_py :: "build_env \<Rightarrow> py_error + setup_args" where
  "setup_py env =
     (case import_setuptools env of
        Inl e \<Rightarrow> Inl e
      | Inr find_packages \<Rightarrow>
          (case open_read env ''README.md'' of
             Inl e \<Rightarrow> Inl e
           | Inr readme \<Rightarrow> Inr (setup_call readme (find_packages ''python''))))"

subsection \<open>Two text encodings\<close>

text \<open>
  Latin-1 decodes every byte to the character of the same number. UTF-8 decodes a byte
  below 128 to itself and the two-byte sequences that begin with \<open>0xC2\<close> or \<open>0xC3\<close> to the
  characters 128 to 255; here it is given for the texts a \<open>string\<close> can hold, and any other
  sequence is answered as malformed.
\<close>

definition latin1_decode :: "string \<Rightarrow> py_error + string" where
  "latin1_decode bs = Inr bs"

fun utf8_decode :: "string \<Rightarrow> py_error + string" where
  "utf8_decode [] = Inr []"
| "utf8_decode [c] =
     (if (of_char c :: nat) < 128 then Inr [c] else Inl UnicodeDecodeError)"
| "utf8_decode (c # d # cs) =
     (if (of_char c :: nat) < 128 then map_sum id ((#) c) (utf8_decode (d # cs))
      else if ((of_char c :: nat) = 194 \<or> (of_char c :: nat) = 195)
              \<and> 128 \<le> (of_char d :: nat) \<and> (of_char d :: nat) < 192
        then map_sum id ((#) (char_of (((of_char c :: nat) - 192) * 64 + (of_char d - 128))))
               (utf8_decode cs)
        else Inl UnicodeDecodeError)"

subsection \<open>Build environments for the closed instances\<close>

text \<open>
  In \<open>sample_env\<close> line 1 imports setuptools, \<open>find_packages\<close> finds one package under
  \<open>python\<close>, \<open>README.md\<close> is a file that opens, and the encoding is Latin-1.
\<close>

definition sample_env :: build_env where
  "sample_env =
     \<lparr> import_setuptools =
         Inr (\<lambda>w. if w = ''python'' then [''api_doc_gen_python''] else []),
       cwd_files = [''README.md'' \<mapsto> Regular ''# api-doc-gen-python''],
       text_decode = latin1_decode \<rparr>"

text \<open>The same, but the building process may not read \<open>README.md\<close>.\<close>

definition unreadable_env :: build_env where
  "unreadable_env =
     sample_env \<lparr> cwd_files := [''README.md'' \<mapsto> Unopenable PermissionError] \<rparr>"

text \<open>The same, but there is no \<open>README.md\<close>.\<close>

definition missing_readme_env :: build_env where
  "missing_readme_env = sample_env \<lparr> cwd_files := Map.empty \<rparr>"

text \<open>The same, but the installed setuptools lacks a name that line 1 imports.\<close>

definition broken_setuptools_env :: build_env where
  "broken_setuptools_env = sample_env \<lparr> import_setuptools := Inl ImportError \<rparr>"

text \<open>The same, but \<open>README.md\<close> is a symbolic link to itself (\<open>errno\<close> 40, \<open>ELOOP\<close>).\<close>

definition looping_link_env :: build_env where
  "looping_link_env =
     sample_env \<lparr> cwd_files := [''README.md'' \<mapsto> Unopenable (OSError 40)] \<rparr>"

text \<open>
  The same, but \<open>README.md\<close> holds the one byte \<open>0xFF\<close> and the encoding is UTF-8, which
  does not decode it.
\<close>

definition undecodable_env :: build_env where
  "undecodable_env =
     sample_env \<lparr> cwd_files := [''README.md'' \<mapsto> Regular [CHR 0xFF]],
                  text_decode := utf8_decode \<rparr>"

text \<open>
  The same files and encoding as \<open>sample_env\<close>, but no package lies under \<open>python/\<close>, so
  \<open>find_packages\<close> finds none.
\<close>

definition empty_tree_env :: build_env where
  "empty_tree_env = sample_env \<lparr> import_setuptools := Inr (\<lambda>w. []) \<rparr>"

text \<open>
  Two runs on the same tree, where \<open>README.md\<close> holds the three bytes \<open>0x63 0xC3 0xA9\<close>:
  one under Latin-1, one under UTF-8.
\<close>

definition latin1_env :: build_env where
  "latin1_env =
     \<lparr> import_setuptools = Inr (\<lambda>w. [''api_doc_gen_python'']),
       cwd_files = [''README.md'' \<mapsto> Regular [CHR 0x63, CHR 0xC3, CHR 0xA9]],
       text_decode = latin1_decode \<rparr>"

definition utf8_env :: build_env where
  "utf8_env =
     \<lparr> import_setuptools = Inr (\<lambda>w. [''api_doc_gen_python'']),
       cwd_files = [''README.md'' \<mapsto> Regular [CHR 0x63, CHR 0xC3, CHR 0xA9]],
       text_decode = utf8_decode \<rparr>"

text \<open>
  Another run with the \<open>README.md\<close> and the encoding of \<open>sample_env\<close>: a second entry lies
  beside \<open>README.md\<close>, and \<open>find_packages\<close> answers differently outside \<open>python/\<close>.
\<close>

definition other_env :: build_env where
  "other_env =
     \<lparr> import_setuptools =
         Inr (\<lambda>w. if w = ''.'' then [''python''] else [''api_doc_gen_python'']),
       cwd_files =
         [''README.md'' \<mapsto> Regular ''# api-doc-gen-python'',
          ''LICENSE'' \<mapsto> Unopenable PermissionError],
       text_decode = latin1_decode \<rparr>"

subsection \<open>Reading what the manifest declares\<close>

text \<open>
  The manifest passes its dependencies, entry points and classifiers as strings in the
  formats of the packaging standards. The functions below take such a string apart, so
  that a claim about a dependency's name or bound is a claim about the string the code
  holds.
\<close>

fun split_on :: "char \<Rightarrow> string \<Rightarrow> string list" where
  "split_on sep [] = [[]]"
| "split_on sep (c # cs) =
     (if c = sep then [] # split_on sep cs
      else (case split_on sep cs of
              [] \<Rightarrow> [[c]]
            | w # ws \<Rightarrow> (c # w) # ws))"

text \<open>
  A requirement is a distribution name followed by version specifiers separated by
  commas, each an operator and a version: \<open>pydantic>=2.4.0\<close>, \<open>click>=8,<9\<close>.
\<close>

definition operator_char :: "char \<Rightarrow> bool" where
  "operator_char c = (c \<in> set ''<>=!~'')"

definition requirement_name :: "string \<Rightarrow> string" where
  "requirement_name r = takeWhile (\<lambda>c. \<not> operator_char c) r"

definition requirement_specifiers :: "string \<Rightarrow> (string \<times> string) list" where
  "requirement_specifiers r =
     (let rest = dropWhile (\<lambda>c. \<not> operator_char c) r
      in if rest = [] then []
         else map (\<lambda>s. (takeWhile operator_char s, dropWhile operator_char s))
                (split_on CHR '','' rest))"

text \<open>
  A requirement is bounded from below only when it has one specifier, with the operator
  \<open>>=\<close> and a version after it.
\<close>

definition lower_bound_only :: "string \<Rightarrow> bool" where
  "lower_bound_only r =
     (case requirement_specifiers r of
        [(oper, ver)] \<Rightarrow> oper = ''>='' \<and> ver \<noteq> []
      | _ \<Rightarrow> False)"

text \<open>
  Every requirement the arguments declare: \<open>install_requires\<close>, then each extra's list.
\<close>

definition declared_requirements :: "setup_args \<Rightarrow> string list" where
  "declared_requirements a = install_requires a @ concat (map snd (extras_require a))"

text \<open>
  An entry point is \<open>command=module:attribute\<close>: the part before the first \<open>=\<close> is the
  command, the part after it the object reference, split at its first \<open>:\<close>.
\<close>

definition entry_point_parse :: "string \<Rightarrow> string \<times> string \<times> string" where
  "entry_point_parse s =
     (let command = takeWhile (\<lambda>c. c \<noteq> CHR ''='') s;
          target = drop 1 (dropWhile (\<lambda>c. c \<noteq> CHR ''='') s)
      in (command,
          takeWhile (\<lambda>c. c \<noteq> CHR '':'') target,
          drop 1 (dropWhile (\<lambda>c. c \<noteq> CHR '':'') target)))"

definition console_scripts :: "setup_args \<Rightarrow> (string \<times> string \<times> string) list" where
  "console_scripts a =
     map entry_point_parse
       (concat (map snd (filter (\<lambda>g. fst g = ''console_scripts'') (entry_points a))))"

text \<open>
  The trove classifiers that name a Python version, by the version they name.
\<close>

definition python_classifier_prefix :: string where
  "python_classifier_prefix = ''Programming Language :: Python :: ''"

definition python_versions_claimed :: "string list \<Rightarrow> string list" where
  "python_versions_claimed cs =
     map (drop (length python_classifier_prefix))
       (filter (\<lambda>c. take (length python_classifier_prefix) c = python_classifier_prefix) cs)"

fun decimal :: "nat \<Rightarrow> string" where
  "decimal n =
     (if n < 10 then [''0123456789'' ! n]
      else decimal (n div 10) @ [''0123456789'' ! (n mod 10)])"

definition python3_minor :: "nat \<Rightarrow> string" where
  "python3_minor n = ''3.'' @ decimal n"

subsection \<open>The source file as text\<close>

text \<open>
  The part of Python's abstract syntax that a manifest can be written in, with the
  statements that would make it a program (definitions, assignments, branches, loops).
\<close>

datatype expr =
    Str string
  | Name string
  | Attribute expr string
  | Call expr "expr list" "(string \<times> expr) list"
  | ListLit "expr list"
  | DictLit "(expr \<times> expr) list"

datatype stmt =
    ImportFrom string "string list"
  | Import string
  | ExprStmt expr
  | Assign string expr
  | FunctionDef string "string list" "stmt list"
  | ClassDef string "stmt list"
  | IfStmt expr "stmt list" "stmt list"
  | ForStmt string expr "stmt list"
  | WhileStmt expr "stmt list"
  | ReturnStmt expr

text \<open>\<open>python/setup.py\<close>, lines 1 to 48.\<close>

definition setup_module :: "stmt list" where
  "setup_module =
     [ ImportFrom ''setuptools'' [''setup'', ''find_packages''],
       ExprStmt
         (Call (Name ''setup'') []
            [ (''name'', Str ''api-doc-gen-python''),
              (''version'', Str ''1.0.0''),
              (''description'', Str ''Python parser module for API Documentation Generator''),
              (''long_description'',
                 Call (Attribute (Call (Name ''open'') [Str ''README.md''] []) ''read'') [] []),
              (''long_description_content_type'', Str ''text/markdown''),
              (''author'', Str ''API Documentation Generator Team''),
              (''python_requires'', Str ''>=3.9''),
              (''packages'', Call (Name ''find_packages'') [] [(''where'', Str ''python'')]),
              (''package_dir'', DictLit [(Str '''', Str ''python'')]),
              (''install_requires'',
                 ListLit
                   [ Str ''docstring-parser>=0.15'',
                     Str ''pydoc-markdown>=4.8.0'',
                     Str ''typing-extensions>=4.7.0'',
                     Str ''pydantic>=2.4.0'',
                     Str ''click>=8.1.0'' ]),
              (''extras_require'',
                 DictLit
                   [ (Str ''dev'',
                      ListLit
                        [ Str ''pytest>=7.4.0'',
                          Str ''pytest-cov>=4.1.0'',
                          Str ''black>=23.7.0'',
                          Str ''flake8>=6.0.0'',
                          Str ''mypy>=1.5.0'',
                          Str ''isort>=5.12.0'',
                          Str ''pre-commit>=3.4.0'' ]) ]),
              (''entry_points'',
                 DictLit
                   [ (Str ''console_scripts'',
                      ListLit [ Str ''api-doc-gen-python=api_doc_gen_python.cli:main'' ]) ]),
              (''classifiers'',
                 ListLit
                   [ Str ''Development Status :: 4 - Beta'',
                     Str ''Intended Audience :: Developers'',
                     Str ''License :: OSI Approved :: MIT License'',
                     Str ''Operating System :: OS Independent'',
                     Str ''Programming Language :: Python :: 3'',
                     Str ''Programming Language :: Python :: 3.9'',
                     Str ''Programming Language :: Python :: 3.10'',
                     Str ''Programming Language :: Python :: 3.11'',
                     Str ''Programming Language :: Python :: 3.12'',
                     Str ''Topic :: Software Development :: Documentation'' ]) ]) ]"

text \<open>The source files supplied with the repository, by path.\<close>

definition supplied_source :: "(string \<times> stmt list) list" where
  "supplied_source = [(''python/setup.py'', setup_module)]"

text \<open>
  The names a block of statements binds, at any depth: by an import, an assignment, a
  loop variable, a function or a class.
\<close>

fun bound_names :: "stmt \<Rightarrow> string list" where
  "bound_names (ImportFrom m ns) = ns"
| "bound_names (Import m) = [m]"
| "bound_names (ExprStmt e) = []"
| "bound_names (Assign x e) = [x]"
| "bound_names (FunctionDef f ps body) = f # concat (map bound_names body)"
| "bound_names (ClassDef c body) = c # concat (map bound_names body)"
| "bound_names (IfStmt e body orelse) =
     concat (map bound_names body) @ concat (map bound_names orelse)"
| "bound_names (ForStmt x e body) = x # concat (map bound_names body)"
| "bound_names (WhileStmt e body) = concat (map bound_names body)"
| "bound_names (ReturnStmt e) = []"

text \<open>The functions and the classes a block defines, at any depth.\<close>

fun defined_functions :: "stmt \<Rightarrow> string list" where
  "defined_functions (FunctionDef f ps body) = f # concat (map defined_functions body)"
| "defined_functions (ClassDef c body) = concat (map defined_functions body)"
| "defined_functions (IfStmt e body orelse) =
     concat (map defined_functions body) @ concat (map defined_functions orelse)"
| "defined_functions (ForStmt x e body) = concat (map defined_functions body)"
| "defined_functions (WhileStmt e body) = concat (map defined_functions body)"
| "defined_functions s = []"

fun defined_classes :: "stmt \<Rightarrow> string list" where
  "defined_classes (FunctionDef f ps body) = concat (map defined_classes body)"
| "defined_classes (ClassDef c body) = c # concat (map defined_classes body)"
| "defined_classes (IfStmt e body orelse) =
     concat (map defined_classes body) @ concat (map defined_classes orelse)"
| "defined_classes (ForStmt x e body) = concat (map defined_classes body)"
| "defined_classes (WhileStmt e body) = concat (map defined_classes body)"
| "defined_classes s = []"

text \<open>
  The statements of a module that are neither an import nor an expression statement:
  where a module's own logic and data would be.
\<close>

fun declaration_only :: "stmt \<Rightarrow> bool" where
  "declaration_only (ImportFrom m ns) = True"
| "declaration_only (Import m) = True"
| "declaration_only (ExprStmt e) = True"
| "declaration_only s = False"

definition logic_statements :: "stmt list \<Rightarrow> stmt list" where
  "logic_statements body = filter (\<lambda>s. \<not> declaration_only s) body"

text \<open>The expression statements of a module, and what a call expression calls.\<close>

fun expression_of :: "stmt \<Rightarrow> expr list" where
  "expression_of (ExprStmt e) = [e]"
| "expression_of s = []"

definition expression_statements :: "stmt list \<Rightarrow> expr list" where
  "expression_statements body = concat (map expression_of body)"

fun called_name :: "expr \<Rightarrow> string option" where
  "called_name (Call (Name f) args kwargs) = Some f"
| "called_name e = None"

fun keyword_arguments :: "expr \<Rightarrow> (string \<times> expr) list" where
  "keyword_arguments (Call f args kwargs) = kwargs"
| "keyword_arguments e = []"

fun positional_arguments :: "expr \<Rightarrow> expr list" where
  "positional_arguments (Call f args kwargs) = args"
| "positional_arguments e = []"

text \<open>
  A literal is a string, or a list or dict display of literals. A direct computation is
  a call of a named function, or of a method of such a call's result, on literal
  arguments: nothing is stored, tested or repeated.
\<close>

fun literal :: "expr \<Rightarrow> bool" where
  "literal (Str s) = True"
| "literal (ListLit es) = list_all literal es"
| "literal (DictLit kvs) = list_all (\<lambda>kv. literal (fst kv) \<and> literal (snd kv)) kvs"
| "literal e = False"

fun direct_call :: "expr \<Rightarrow> bool" where
  "direct_call (Call (Name f) args kwargs) =
     (list_all literal args \<and> list_all (\<lambda>kw. literal (snd kw)) kwargs)"
| "direct_call (Call (Attribute obj m) args kwargs) =
     (direct_call obj \<and> list_all literal args \<and> list_all (\<lambda>kw. literal (snd kw)) kwargs)"
| "direct_call e = False"

subsection \<open>Evaluating the syntax tree\<close>

text \<open>
  The values a manifest computes with: strings, lists and dicts; the functions it can
  name (the builtin \<open>open\<close>, and \<open>setup\<close> and \<open>find_packages\<close> once imported); an open
  text file, kept as the bytes it will read; a method of a value; and the result of
  \<open>setup\<close>, of which only the keyword arguments it was called with are kept.
\<close>

datatype pyval =
    VStr string
  | VList "pyval list"
  | VDict "(pyval \<times> pyval) list"
  | VFunction string
  | VFile string
  | VMethod pyval string
  | VDistribution "(string \<times> pyval) list"

type_synonym namespace = "string \<rightharpoonup> pyval"

text \<open>Calling a value with evaluated positional and keyword arguments.\<close>

definition call_value ::
  "build_env \<Rightarrow> pyval \<Rightarrow> pyval list \<Rightarrow> (string \<times> pyval) list \<Rightarrow> py_error + pyval" where
  "call_value env f args kwargs =
     (case f of
        VFunction n \<Rightarrow>
          if n = ''open'' then
            (case (args, kwargs) of
               ([VStr path], []) \<Rightarrow> map_sum id VFile (open_file env path)
             | _ \<Rightarrow> Inl TypeError)
          else if n = ''find_packages'' then
            (case (import_setuptools env, args, kwargs) of
               (Inr find_packages, [], [(k, VStr w)]) \<Rightarrow>
                 if k = ''where'' then Inr (VList (map VStr (find_packages w)))
                 else Inl TypeError
             | _ \<Rightarrow> Inl TypeError)
          else if n = ''setup'' then
            (case args of
               [] \<Rightarrow> Inr (VDistribution kwargs)
             | _ \<Rightarrow> Inl TypeError)
          else Inl TypeError
      | VMethod (VFile bs) m \<Rightarrow>
          if m = ''read'' \<and> args = [] \<and> kwargs = []
          then map_sum id VStr (file_read env bs)
          else Inl TypeError
      | _ \<Rightarrow> Inl TypeError)"

text \<open>
  Expressions are evaluated in Python's order: the function, then the positional
  arguments left to right, then the keyword arguments left to right; the first exception
  ends the evaluation.
\<close>

function (sequential) eval :: "build_env \<Rightarrow> namespace \<Rightarrow> expr \<Rightarrow> py_error + pyval"
  and eval_list :: "build_env \<Rightarrow> namespace \<Rightarrow> expr list \<Rightarrow> py_error + pyval list"
  and eval_keywords ::
    "build_env \<Rightarrow> namespace \<Rightarrow> (string \<times> expr) list \<Rightarrow> py_error + (string \<times> pyval) list"
  and eval_items ::
    "build_env \<Rightarrow> namespace \<Rightarrow> (expr \<times> expr) list \<Rightarrow> py_error + (pyval \<times> pyval) list"
where
  "eval env ns (Str s) = Inr (VStr s)"
| "eval env ns (Name x) =
     (case ns x of
        Some v \<Rightarrow> Inr v
      | None \<Rightarrow> if x = ''open'' then Inr (VFunction ''open'') else Inl NameError)"
| "eval env ns (Attribute obj m) =
     (case eval env ns obj of
        Inl e \<Rightarrow> Inl e
      | Inr (VFile bs) \<Rightarrow> if m = ''read'' then Inr (VMethod (VFile bs) m) else Inl AttributeError
      | Inr v \<Rightarrow> Inl AttributeError)"
| "eval env ns (Call f args kwargs) =
     (case eval env ns f of
        Inl e \<Rightarrow> Inl e
      | Inr fv \<Rightarrow>
          (case eval_list env ns args of
             Inl e \<Rightarrow> Inl e
           | Inr vs \<Rightarrow>
               (case eval_keywords env ns kwargs of
                  Inl e \<Rightarrow> Inl e
                | Inr kvs \<Rightarrow> call_value env fv vs kvs)))"
| "eval env ns (ListLit es) = map_sum id VList (eval_list env ns es)"
| "eval env ns (DictLit items) = map_sum id VDict (eval_items env ns items)"
| "eval_list env ns [] = Inr []"
| "eval_list env ns (e # es) =
     (case eval env ns e of
        Inl err \<Rightarrow> Inl err
      | Inr v \<Rightarrow> map_sum id ((#) v) (eval_list env ns es))"
| "eval_keywords env ns [] = Inr []"
| "eval_keywords env ns ((k, e) # kwargs) =
     (case eval env ns e of
        Inl err \<Rightarrow> Inl err
      | Inr v \<Rightarrow> map_sum id ((#) (k, v)) (eval_keywords env ns kwargs))"
| "eval_items env ns [] = Inr []"
| "eval_items env ns ((k, e) # items) =
     (case eval env ns k of
        Inl err \<Rightarrow> Inl err
      | Inr kv \<Rightarrow>
          (case eval env ns e of
             Inl err \<Rightarrow> Inl err
           | Inr v \<Rightarrow> map_sum id ((#) (kv, v)) (eval_items env ns items)))"
  by pat_completeness auto
termination
  by (relation "measure (\<lambda>x. case x of
          Inl (Inl (env, ns, e)) \<Rightarrow> size e
        | Inl (Inr (env, ns, es)) \<Rightarrow> size_list size es
        | Inr (Inl (env, ns, kwargs)) \<Rightarrow> size_list (size_prod (\<lambda>k. 0) size) kwargs
        | Inr (Inr (env, ns, items)) \<Rightarrow> size_list (size_prod size size) items)")
    auto

text \<open>
  A statement changes the module's namespace and, when it is an expression statement,
  adds the expression's value to the values the run has produced. Only the statements a
  manifest is made of are given a meaning, and of the imports only the one of line 1,
  whose outcome the build environment holds.
\<close>

fun exec_stmt ::
  "build_env \<Rightarrow> namespace \<times> pyval list \<Rightarrow> stmt \<Rightarrow> py_error + namespace \<times> pyval list" where
  "exec_stmt env (ns, out) (ImportFrom m names) =
     (if m = ''setuptools'' \<and> names = [''setup'', ''find_packages'']
      then (case import_setuptools env of
              Inl e \<Rightarrow> Inl e
            | Inr find_packages \<Rightarrow>
                Inr (ns ++ map_of (map (\<lambda>n. (n, VFunction n)) names), out))
      else Inl NotModelled)"
| "exec_stmt env (ns, out) (ExprStmt e) =
     (case eval env ns e of
        Inl err \<Rightarrow> Inl err
      | Inr v \<Rightarrow> Inr (ns, out @ [v]))"
| "exec_stmt env (ns, out) s = Inl NotModelled"

fun exec_block ::
  "build_env \<Rightarrow> namespace \<times> pyval list \<Rightarrow> stmt list \<Rightarrow> py_error + namespace \<times> pyval list" where
  "exec_block env st [] = Inr st"
| "exec_block env st (s # ss) =
     (case exec_stmt env st s of
        Inl err \<Rightarrow> Inl err
      | Inr st' \<Rightarrow> exec_block env st' ss)"

text \<open>Running a module: the values of its expression statements, in order.\<close>

definition exec_module :: "build_env \<Rightarrow> stmt list \<Rightarrow> py_error + pyval list" where
  "exec_module env body = map_sum id snd (exec_block env (Map.empty, []) body)"

text \<open>The keyword arguments of \<open>setup_call\<close> as the values the evaluator computes.\<close>

definition str_list :: "string list \<Rightarrow> pyval" where
  "str_list xs = VList (map VStr xs)"

definition keyword_values :: "setup_args \<Rightarrow> (string \<times> pyval) list" where
  "keyword_values a =
     [ (''name'', VStr (name a)),
       (''version'', VStr (version a)),
       (''description'', VStr (description a)),
       (''long_description'', VStr (long_description a)),
       (''long_description_content_type'', VStr (long_description_content_type a)),
       (''author'', VStr (author a)),
       (''python_requires'', VStr (python_requires a)),
       (''packages'', str_list (packages a)),
       (''package_dir'', VDict (map (\<lambda>(k, v). (VStr k, VStr v)) (package_dir a))),
       (''install_requires'', str_list (install_requires a)),
       (''extras_require'', VDict (map (\<lambda>(k, v). (VStr k, str_list v)) (extras_require a))),
       (''entry_points'', VDict (map (\<lambda>(k, v). (VStr k, str_list v)) (entry_points a))),
       (''classifiers'', str_list (classifiers a)) ]"

section \<open>The two embeddings agree\<close>

text \<open>
  Evaluating the syntax tree of the manifest gives what \<open>setup_py\<close> gives: the same
  exception, or one value, the result of \<open>setup\<close> called with the same keyword arguments
  in the same order.
\<close>

lemma exec_setup_module:
  "exec_module env setup_module =
     map_sum id (\<lambda>a. [VDistribution (keyword_values a)]) (setup_py env)"
  by (simp add: exec_module_def setup_module_def setup_py_def open_read_def call_value_def
      file_read_def keyword_values_def str_list_def setup_call_def
      split: option.splits sum.splits)

text \<open>A run that reaches the call of \<open>setup\<close> passes \<open>setup_call\<close> of its two computed values.\<close>

lemma setup_py_Inr:
  assumes "setup_py env = Inr a"
  shows "\<exists>readme found. a = setup_call readme found"
  using assms by (auto simp: setup_py_def split: option.splits sum.splits)

lemma setup_py_Inr_computed:
  assumes "setup_py env = Inr a"
  shows "\<exists>find_packages readme.
           import_setuptools env = Inr find_packages
         \<and> open_read env ''README.md'' = Inr readme
         \<and> a = setup_call readme (find_packages ''python'')"
  using assms by (auto simp: setup_py_def split: option.splits sum.splits)

lemma open_read_Inr:
  "open_read env path = Inr text \<longleftrightarrow>
     (\<exists>bs. cwd_files env path = Some (Regular bs) \<and> text_decode env bs = Inr text)"
  by (auto simp: open_read_def open_file_def file_read_def split: option.splits node.splits)

lemma open_read_sample: "open_read sample_env ''README.md'' = Inr ''# api-doc-gen-python''"
  by (simp add: open_read_def open_file_def file_read_def sample_env_def latin1_decode_def)

lemma open_read_other: "open_read other_env ''README.md'' = Inr ''# api-doc-gen-python''"
  by (simp add: open_read_def open_file_def file_read_def other_env_def latin1_decode_def)

lemma setup_py_sample:
  "setup_py sample_env = Inr (setup_call ''# api-doc-gen-python'' [''api_doc_gen_python''])"
  unfolding setup_py_def open_read_sample by (simp add: sample_env_def)

lemma setup_py_other:
  "setup_py other_env = Inr (setup_call ''# api-doc-gen-python'' [''api_doc_gen_python''])"
  unfolding setup_py_def open_read_other by (simp add: other_env_def)

lemma setup_py_empty_tree:
  "setup_py empty_tree_env = Inr (setup_call ''# api-doc-gen-python'' [])"
  by (simp add: setup_py_def empty_tree_env_def open_read_def open_file_def file_read_def
      sample_env_def latin1_decode_def)

lemma setup_py_unreadable: "setup_py unreadable_env = Inl PermissionError"
  by (simp add: setup_py_def unreadable_env_def open_read_def open_file_def sample_env_def)

lemma setup_py_latin1:
  "setup_py latin1_env =
     Inr (setup_call [CHR 0x63, CHR 0xC3, CHR 0xA9] [''api_doc_gen_python''])"
  by (simp add: setup_py_def latin1_env_def open_read_def open_file_def file_read_def
      latin1_decode_def)

lemma utf8_decode_e_acute: "utf8_decode [CHR 0x63, CHR 0xC3, CHR 0xA9] = Inr [CHR 0x63, CHR 0xE9]"
proof -
  have "char_of (233 :: nat) = CHR 0xE9"
    by code_simp
  then show ?thesis by simp
qed

lemma setup_py_utf8:
  "setup_py utf8_env = Inr (setup_call [CHR 0x63, CHR 0xE9] [''api_doc_gen_python''])"
  by (simp add: setup_py_def utf8_env_def open_read_def open_file_def file_read_def
      utf8_decode_e_acute del: utf8_decode.simps)

section \<open>Package discovery\<close>

text \<open>
  The directory \<open>find_packages\<close> is asked to search is the directory \<open>package_dir\<close> maps
  the root package to. Whether a package lies there is a fact of the build tree, which
  the manifest neither reads nor checks.
\<close>

lemma packages_searched_under_package_dir:
  assumes "setup_py env = Inr a"
  shows "\<exists>find_packages root.
           import_setuptools env = Inr find_packages
         \<and> map_of (package_dir a) '''' = Some root
         \<and> packages a = find_packages root"
proof -
  from setup_py_Inr_computed [OF assms] obtain find_packages readme where
    "import_setuptools env = Inr find_packages"
    "a = setup_call readme (find_packages ''python'')"
    by blast
  then show ?thesis by (simp add: setup_call_def)
qed

section \<open>Failure\<close>

text \<open>
  C2, as stated: evaluating the manifest fails if and only if \<open>README.md\<close> is missing.
  In \<open>unreadable_env\<close> the file is there and the building process may not read it:
  \<open>open("README.md")\<close> raises \<open>PermissionError\<close>.
\<close>

theorem C2_unreadable_readme_counterexample:
  "\<not> (isl (setup_py unreadable_env) \<longleftrightarrow> cwd_files unreadable_env ''README.md'' = None)"
  by (simp add: setup_py_unreadable) (simp add: unreadable_env_def)

text \<open>
  C2, amended: evaluating the manifest fails if \<open>README.md\<close> is missing: once line 1 has
  imported setuptools, \<open>open("README.md")\<close> raises \<open>FileNotFoundError\<close> and \<open>setup\<close> is not
  called. A missing \<open>README.md\<close> is not the only failure. The manifest handles no
  exception: what the import of line 1 raises, what \<open>open("README.md")\<close> raises on an
  entry it refuses, and what \<open>read()\<close> raises on the file's bytes each end the evaluation
  with that exception.
\<close>

theorem C2_missing_readme_and_uncaught_exceptions:
  "(import_setuptools env = Inr find_packages \<and> cwd_files env ''README.md'' = None
      \<longrightarrow> setup_py env = Inl FileNotFoundError)
   \<and> (import_setuptools env = Inl e \<longrightarrow> setup_py env = Inl e)
   \<and> (import_setuptools env = Inr find_packages
        \<and> cwd_files env ''README.md'' = Some (Unopenable e)
      \<longrightarrow> setup_py env = Inl e)
   \<and> (import_setuptools env = Inr find_packages
        \<and> cwd_files env ''README.md'' = Some (Regular bs)
        \<and> text_decode env bs = Inl e
      \<longrightarrow> setup_py env = Inl e)"
  by (simp add: setup_py_def open_read_def open_file_def file_read_def)

theorem C2_missing_readme_and_uncaught_exceptions_witness:
  "setup_py missing_readme_env = Inl FileNotFoundError
   \<and> setup_py broken_setuptools_env = Inl ImportError
   \<and> setup_py looping_link_env = Inl (OSError 40)
   \<and> setup_py undecodable_env = Inl UnicodeDecodeError"
proof -
  let ?find = "\<lambda>w. if w = ''python'' then [''api_doc_gen_python''] else []"
  have "import_setuptools missing_readme_env = Inr ?find"
    and "cwd_files missing_readme_env ''README.md'' = None"
    by (simp_all add: missing_readme_env_def sample_env_def)
  with C2_missing_readme_and_uncaught_exceptions [of missing_readme_env ?find]
  have missing: "setup_py missing_readme_env = Inl FileNotFoundError"
    by blast
  have "import_setuptools broken_setuptools_env = Inl ImportError"
    by (simp add: broken_setuptools_env_def)
  with C2_missing_readme_and_uncaught_exceptions [of broken_setuptools_env _ ImportError]
  have broken: "setup_py broken_setuptools_env = Inl ImportError"
    by blast
  have "import_setuptools looping_link_env = Inr ?find"
    and "cwd_files looping_link_env ''README.md'' = Some (Unopenable (OSError 40))"
    by (simp_all add: looping_link_env_def sample_env_def)
  with C2_missing_readme_and_uncaught_exceptions [of looping_link_env ?find "OSError 40"]
  have looping: "setup_py looping_link_env = Inl (OSError 40)"
    by blast
  have "import_setuptools undecodable_env = Inr ?find"
    and "cwd_files undecodable_env ''README.md'' = Some (Regular [CHR 0xFF])"
    and "text_decode undecodable_env [CHR 0xFF] = Inl UnicodeDecodeError"
    by (simp_all add: undecodable_env_def sample_env_def)
  with C2_missing_readme_and_uncaught_exceptions
    [of undecodable_env ?find UnicodeDecodeError "[CHR 0xFF]"]
  have undecodable: "setup_py undecodable_env = Inl UnicodeDecodeError"
    by blast
  from missing broken looping undecodable show ?thesis by simp
qed

section \<open>The declared metadata\<close>

text \<open>
  C6: whenever the manifest reaches its call of \<open>setup\<close>, the package name it passes is
  exactly \<open>api-doc-gen-python\<close> and the version is exactly \<open>1.0.0\<close>.
\<close>

theorem C6_name_and_version:
  assumes "setup_py env = Inr a"
  shows "name a = ''api-doc-gen-python'' \<and> version a = ''1.0.0''"
proof -
  from setup_py_Inr [OF assms] obtain readme found where "a = setup_call readme found"
    by blast
  then show ?thesis by (simp add: setup_call_def)
qed

theorem C6_name_and_version_witness:
  "setup_py sample_env = Inr (setup_call ''# api-doc-gen-python'' [''api_doc_gen_python''])
   \<and> name (setup_call ''# api-doc-gen-python'' [''api_doc_gen_python'']) = ''api-doc-gen-python''
   \<and> version (setup_call ''# api-doc-gen-python'' [''api_doc_gen_python'']) = ''1.0.0''"
  by (rule conjI [OF setup_py_sample C6_name_and_version [OF setup_py_sample]])

text \<open>
  C5: the manifest passes the interpreter constraint \<open>>=3.9\<close>, one lower bound at 3.9, and
  the Python versions its classifiers name are 3 and each minor version 3.9, 3.10, 3.11
  and 3.12, none missing and none beyond.
\<close>

theorem C5_python_versions:
  assumes "setup_py env = Inr a"
  shows "python_requires a = ''>=3.9''
       \<and> requirement_specifiers (python_requires a) = [(''>='', python3_minor 9)]
       \<and> python_versions_claimed (classifiers a) = ''3'' # map python3_minor [9, 10, 11, 12]"
proof -
  from setup_py_Inr [OF assms] obtain readme found where a: "a = setup_call readme found"
    by blast
  have "python_requires a = ''>=3.9''"
    by (simp add: a setup_call_def)
  moreover have "requirement_specifiers ''>=3.9'' = [(''>='', python3_minor 9)]"
    by (simp add: requirement_specifiers_def operator_char_def python3_minor_def)
  moreover have "python_versions_claimed (classifiers a) = ''3'' # map python3_minor [9, 10, 11, 12]"
    by (simp add: a setup_call_def python_versions_claimed_def python_classifier_prefix_def
        python3_minor_def)
  ultimately show ?thesis by simp
qed

theorem C5_python_versions_witness:
  "setup_py sample_env = Inr (setup_call ''# api-doc-gen-python'' [''api_doc_gen_python''])
   \<and> python_versions_claimed
       (classifiers (setup_call ''# api-doc-gen-python'' [''api_doc_gen_python'']))
     = [''3'', ''3.9'', ''3.10'', ''3.11'', ''3.12'']"
  using setup_py_sample C5_python_versions [OF setup_py_sample]
  by (simp add: python3_minor_def)

section \<open>Dependencies\<close>

text \<open>
  C4: the runtime dependencies the manifest passes are exactly five requirements, on
  \<open>docstring-parser\<close>, \<open>pydoc-markdown\<close>, \<open>typing-extensions\<close>, \<open>pydantic\<close> and \<open>click\<close>.
\<close>

theorem C4_install_requires:
  assumes "setup_py env = Inr a"
  shows "length (install_requires a) = 5
       \<and> map requirement_name (install_requires a) =
           [''docstring-parser'', ''pydoc-markdown'', ''typing-extensions'', ''pydantic'', ''click'']"
proof -
  from setup_py_Inr [OF assms] obtain readme found where "a = setup_call readme found"
    by blast
  then show ?thesis
    by (simp add: setup_call_def requirement_name_def operator_char_def)
qed

theorem C4_install_requires_witness:
  "setup_py sample_env = Inr (setup_call ''# api-doc-gen-python'' [''api_doc_gen_python''])
   \<and> length (install_requires (setup_call ''# api-doc-gen-python'' [''api_doc_gen_python''])) = 5
   \<and> map requirement_name
       (install_requires (setup_call ''# api-doc-gen-python'' [''api_doc_gen_python'']))
     = [''docstring-parser'', ''pydoc-markdown'', ''typing-extensions'', ''pydantic'', ''click'']"
  by (rule conjI [OF setup_py_sample C4_install_requires [OF setup_py_sample]])

text \<open>
  C7: the manifest declares one extra, \<open>dev\<close>, of exactly seven requirements, on \<open>pytest\<close>,
  \<open>pytest-cov\<close>, \<open>black\<close>, \<open>flake8\<close>, \<open>mypy\<close>, \<open>isort\<close> and \<open>pre-commit\<close>.
\<close>

theorem C7_dev_extra:
  assumes "setup_py env = Inr a"
  shows "map (\<lambda>x. (fst x, length (snd x), map requirement_name (snd x))) (extras_require a) =
           [(''dev'', 7,
             [''pytest'', ''pytest-cov'', ''black'', ''flake8'', ''mypy'', ''isort'',
              ''pre-commit''])]"
proof -
  from setup_py_Inr [OF assms] obtain readme found where "a = setup_call readme found"
    by blast
  then show ?thesis
    by (simp add: setup_call_def requirement_name_def operator_char_def)
qed

theorem C7_dev_extra_witness:
  "setup_py sample_env = Inr (setup_call ''# api-doc-gen-python'' [''api_doc_gen_python''])
   \<and> map (\<lambda>x. (fst x, length (snd x), map requirement_name (snd x)))
       (extras_require (setup_call ''# api-doc-gen-python'' [''api_doc_gen_python'']))
     = [(''dev'', 7,
         [''pytest'', ''pytest-cov'', ''black'', ''flake8'', ''mypy'', ''isort'', ''pre-commit''])]"
  by (rule conjI [OF setup_py_sample C7_dev_extra [OF setup_py_sample]])

text \<open>
  C10: each of the twelve requirements the manifest declares, in \<open>install_requires\<close> and in
  the \<open>dev\<close> extra, has one version specifier, a lower bound \<open>>=\<close>: no upper bound, no pin,
  no exclusion.
\<close>

theorem C10_lower_bounds_only:
  assumes "setup_py env = Inr a"
  shows "length (declared_requirements a) = 12
       \<and> list_all lower_bound_only (declared_requirements a)
       \<and> map (map fst \<circ> requirement_specifiers) (declared_requirements a) = replicate 12 [''>='']"
proof -
  from setup_py_Inr [OF assms] obtain readme found where a: "a = setup_call readme found"
    by blast
  have reqs: "declared_requirements a =
      [ ''docstring-parser>=0.15'', ''pydoc-markdown>=4.8.0'', ''typing-extensions>=4.7.0'',
        ''pydantic>=2.4.0'', ''click>=8.1.0'', ''pytest>=7.4.0'', ''pytest-cov>=4.1.0'',
        ''black>=23.7.0'', ''flake8>=6.0.0'', ''mypy>=1.5.0'', ''isort>=5.12.0'',
        ''pre-commit>=3.4.0'' ]"
    by (simp add: a declared_requirements_def setup_call_def)
  have specs: "map requirement_specifiers (declared_requirements a) =
      [ [(''>='', ''0.15'')], [(''>='', ''4.8.0'')], [(''>='', ''4.7.0'')], [(''>='', ''2.4.0'')],
        [(''>='', ''8.1.0'')], [(''>='', ''7.4.0'')], [(''>='', ''4.1.0'')], [(''>='', ''23.7.0'')],
        [(''>='', ''6.0.0'')], [(''>='', ''1.5.0'')], [(''>='', ''5.12.0'')], [(''>='', ''3.4.0'')] ]"
    unfolding reqs by (simp add: requirement_specifiers_def operator_char_def)
  have "length (declared_requirements a) = 12"
    unfolding reqs by simp
  moreover have "list_all lower_bound_only (declared_requirements a)"
    using specs unfolding reqs by (simp add: lower_bound_only_def)
  moreover have
    "map (map fst \<circ> requirement_specifiers) (declared_requirements a) = replicate 12 [''>='']"
    using specs unfolding reqs by (simp add: numeral_eq_Suc)
  ultimately show ?thesis by simp
qed

theorem C10_lower_bounds_only_witness:
  "setup_py sample_env = Inr (setup_call ''# api-doc-gen-python'' [''api_doc_gen_python''])
   \<and> list_all lower_bound_only
       (declared_requirements (setup_call ''# api-doc-gen-python'' [''api_doc_gen_python'']))"
  using setup_py_sample C10_lower_bounds_only [OF setup_py_sample] by blast

section \<open>The entry point\<close>

text \<open>
  C3: the manifest declares one group of entry points, \<open>console_scripts\<close>, with exactly one
  entry: the command \<open>api-doc-gen-python\<close>, for the attribute \<open>main\<close> of the module
  \<open>api_doc_gen_python.cli\<close>. The supplied source is the one file \<open>python/setup.py\<close>; it
  binds no name \<open>main\<close> and defines no function at all, so the function the entry point
  refers to is not in the supplied source.
\<close>

theorem C3_console_entry_point:
  assumes "setup_py env = Inr a"
  shows "map fst (entry_points a) = [''console_scripts'']
       \<and> console_scripts a = [(''api-doc-gen-python'', ''api_doc_gen_python.cli'', ''main'')]
       \<and> map fst supplied_source = [''python/setup.py'']
       \<and> ''main'' \<notin> set (concat (map (\<lambda>f. concat (map bound_names (snd f))) supplied_source))
       \<and> concat (map (\<lambda>f. concat (map defined_functions (snd f))) supplied_source) = []"
proof -
  from setup_py_Inr [OF assms] obtain readme found where a: "a = setup_call readme found"
    by blast
  have "map fst (entry_points a) = [''console_scripts'']"
    by (simp add: a setup_call_def)
  moreover have
    "console_scripts a = [(''api-doc-gen-python'', ''api_doc_gen_python.cli'', ''main'')]"
    by (simp add: a setup_call_def console_scripts_def entry_point_parse_def)
  moreover have "map fst supplied_source = [''python/setup.py'']"
    by (simp add: supplied_source_def)
  moreover have
    "concat (map (\<lambda>f. concat (map bound_names (snd f))) supplied_source) =
       [''setup'', ''find_packages'']"
    by (simp add: supplied_source_def setup_module_def)
  moreover have
    "concat (map (\<lambda>f. concat (map defined_functions (snd f))) supplied_source) = []"
    by (simp add: supplied_source_def setup_module_def)
  ultimately show ?thesis by simp
qed

theorem C3_console_entry_point_witness:
  "setup_py sample_env = Inr (setup_call ''# api-doc-gen-python'' [''api_doc_gen_python''])
   \<and> console_scripts (setup_call ''# api-doc-gen-python'' [''api_doc_gen_python''])
     = [(''api-doc-gen-python'', ''api_doc_gen_python.cli'', ''main'')]"
  using setup_py_sample C3_console_entry_point [OF setup_py_sample] by blast

section \<open>What the source file contains\<close>

text \<open>
  C8: the supplied source is one file. Its statements are an import and one expression
  statement, a call of \<open>setup\<close> with keyword arguments only, each of them a literal or a
  direct computation on literals. It defines no function and no class, and has no
  assignment, branch or loop: there is nowhere a parser, a command line, a data model or
  an algorithm could be.
\<close>

theorem C8_no_implementation_logic:
  "map fst supplied_source = [''python/setup.py'']
   \<and> map snd supplied_source = [setup_module]
   \<and> concat (map defined_functions setup_module) = []
   \<and> concat (map defined_classes setup_module) = []
   \<and> logic_statements setup_module = []
   \<and> map called_name (expression_statements setup_module) = [Some ''setup'']
   \<and> concat (map positional_arguments (expression_statements setup_module)) = []
   \<and> list_all (\<lambda>kw. literal (snd kw) \<or> direct_call (snd kw))
        (concat (map keyword_arguments (expression_statements setup_module)))"
proof -
  have "map fst supplied_source = [''python/setup.py'']" "map snd supplied_source = [setup_module]"
    by (simp_all add: supplied_source_def)
  moreover have "concat (map defined_functions setup_module) = []"
    "concat (map defined_classes setup_module) = []"
    "logic_statements setup_module = []"
    by (simp_all add: setup_module_def logic_statements_def)
  moreover have "map called_name (expression_statements setup_module) = [Some ''setup'']"
    "concat (map positional_arguments (expression_statements setup_module)) = []"
    by (simp_all add: setup_module_def expression_statements_def)
  moreover have "list_all (\<lambda>kw. literal (snd kw) \<or> direct_call (snd kw))
        (concat (map keyword_arguments (expression_statements setup_module)))"
    by (simp add: setup_module_def expression_statements_def)
  ultimately show ?thesis by simp
qed

section \<open>What the arguments depend on\<close>

text \<open>
  C9, as stated: two runs with the same \<open>README.md\<close> pass the same arguments. Two pairs of
  runs say otherwise. The runs \<open>sample_env\<close> and \<open>empty_tree_env\<close> have the same files and
  the same encoding and differ in what lies under \<open>python/\<close>: \<open>find_packages\<close> answers
  differently, and the \<open>packages\<close> argument differs; it is computed, not a literal. The
  runs \<open>latin1_env\<close> and \<open>utf8_env\<close> have the same files, \<open>README.md\<close> byte for byte, and
  the same answer of \<open>find_packages\<close>, and differ in the default text encoding: the bytes
  \<open>0x63 0xC3 0xA9\<close> are read as three characters in the one and as two in the other, and
  the \<open>long_description\<close> argument differs.
\<close>

theorem C9_same_readme_counterexample:
  "cwd_files sample_env = cwd_files empty_tree_env
   \<and> text_decode sample_env = text_decode empty_tree_env
   \<and> setup_py sample_env = Inr (setup_call ''# api-doc-gen-python'' [''api_doc_gen_python''])
   \<and> setup_py empty_tree_env = Inr (setup_call ''# api-doc-gen-python'' [])
   \<and> packages (setup_call ''# api-doc-gen-python'' [''api_doc_gen_python''])
     \<noteq> packages (setup_call ''# api-doc-gen-python'' [])
   \<and> cwd_files latin1_env = cwd_files utf8_env
   \<and> import_setuptools latin1_env = import_setuptools utf8_env
   \<and> setup_py latin1_env
     = Inr (setup_call [CHR 0x63, CHR 0xC3, CHR 0xA9] [''api_doc_gen_python''])
   \<and> setup_py utf8_env = Inr (setup_call [CHR 0x63, CHR 0xE9] [''api_doc_gen_python''])
   \<and> long_description (setup_call [CHR 0x63, CHR 0xC3, CHR 0xA9] [''api_doc_gen_python''])
     \<noteq> long_description (setup_call [CHR 0x63, CHR 0xE9] [''api_doc_gen_python''])"
proof -
  have "cwd_files sample_env = cwd_files empty_tree_env"
    and "text_decode sample_env = text_decode empty_tree_env"
    by (simp_all add: empty_tree_env_def)
  moreover have "packages (setup_call ''# api-doc-gen-python'' [''api_doc_gen_python''])
     \<noteq> packages (setup_call ''# api-doc-gen-python'' [])"
    by (simp add: setup_call_def)
  moreover have "cwd_files latin1_env = cwd_files utf8_env"
    and "import_setuptools latin1_env = import_setuptools utf8_env"
    by (simp_all add: latin1_env_def utf8_env_def)
  moreover have
    "long_description (setup_call [CHR 0x63, CHR 0xC3, CHR 0xA9] [''api_doc_gen_python''])
     \<noteq> long_description (setup_call [CHR 0x63, CHR 0xE9] [''api_doc_gen_python''])"
    by (simp add: setup_call_def)
  ultimately show ?thesis
    using setup_py_sample setup_py_empty_tree setup_py_latin1 setup_py_utf8 by blast
qed

text \<open>
  C9, amended: the manifest is determined by three inputs. Two runs in which \<open>README.md\<close>
  is the same entry with the same bytes, the default text encoding is the same, and
  line 1 ends the same way with \<open>find_packages(where="python")\<close> giving the same answer,
  end the same way, with the same arguments. In a run that reaches the call,
  \<open>long_description\<close> is the bytes of \<open>README.md\<close> decoded in the run's encoding and
  \<open>packages\<close> is the answer of \<open>find_packages\<close>; and any two runs that reach the call,
  whatever their environments, agree on every other argument.
\<close>

theorem C9_determined_by_readme_encoding_and_packages:
  "(cwd_files env1 ''README.md'' = cwd_files env2 ''README.md''
      \<and> text_decode env1 = text_decode env2
      \<and> map_sum id (\<lambda>f. f ''python'') (import_setuptools env1)
        = map_sum id (\<lambda>f. f ''python'') (import_setuptools env2)
      \<longrightarrow> setup_py env1 = setup_py env2)
   \<and> (setup_py env1 = Inr a1
      \<longrightarrow> (\<exists>bs. cwd_files env1 ''README.md'' = Some (Regular bs)
               \<and> text_decode env1 bs = Inr (long_description a1))
        \<and> map_sum id (\<lambda>f. f ''python'') (import_setuptools env1) = Inr (packages a1))
   \<and> (setup_py env1 = Inr a1 \<and> setup_py env2 = Inr a2
      \<longrightarrow> a1 \<lparr> long_description := long_description a2, packages := packages a2 \<rparr> = a2)"
proof (intro conjI impI)
  assume same: "cwd_files env1 ''README.md'' = cwd_files env2 ''README.md''
      \<and> text_decode env1 = text_decode env2
      \<and> map_sum id (\<lambda>f. f ''python'') (import_setuptools env1)
        = map_sum id (\<lambda>f. f ''python'') (import_setuptools env2)"
  then have read: "open_read env1 ''README.md'' = open_read env2 ''README.md''"
    by (simp add: open_read_def open_file_def file_read_def split: option.splits node.splits)
  from same show "setup_py env1 = setup_py env2"
    by (cases "import_setuptools env1"; cases "import_setuptools env2")
       (simp_all add: setup_py_def read split: sum.splits)
next
  assume "setup_py env1 = Inr a1"
  from setup_py_Inr_computed [OF this] obtain find_packages readme where
    found: "import_setuptools env1 = Inr find_packages"
    and read: "open_read env1 ''README.md'' = Inr readme"
    and a1: "a1 = setup_call readme (find_packages ''python'')"
    by blast
  from a1 have "long_description a1 = readme" "packages a1 = find_packages ''python''"
    by (simp_all add: setup_call_def)
  with found read
  show "\<exists>bs. cwd_files env1 ''README.md'' = Some (Regular bs)
               \<and> text_decode env1 bs = Inr (long_description a1)"
    and "map_sum id (\<lambda>f. f ''python'') (import_setuptools env1) = Inr (packages a1)"
    by (simp_all add: open_read_Inr)
next
  assume "setup_py env1 = Inr a1 \<and> setup_py env2 = Inr a2"
  then obtain r1 f1 r2 f2 where "a1 = setup_call r1 f1" "a2 = setup_call r2 f2"
    using setup_py_Inr by blast
  then show "a1 \<lparr> long_description := long_description a2, packages := packages a2 \<rparr> = a2"
    by (simp add: setup_call_def)
qed

theorem C9_determined_by_readme_encoding_and_packages_witness:
  "cwd_files sample_env ''README.md'' = cwd_files other_env ''README.md''
   \<and> text_decode sample_env = text_decode other_env
   \<and> import_setuptools sample_env \<noteq> import_setuptools other_env
   \<and> cwd_files sample_env \<noteq> cwd_files other_env
   \<and> setup_py sample_env = setup_py other_env
   \<and> (\<exists>bs. cwd_files sample_env ''README.md'' = Some (Regular bs)
          \<and> text_decode sample_env bs
            = Inr (long_description
                (setup_call ''# api-doc-gen-python'' [''api_doc_gen_python''])))
   \<and> (setup_call ''# api-doc-gen-python'' [''api_doc_gen_python''])
       \<lparr> long_description := long_description (setup_call [CHR 0x63, CHR 0xE9] [''api_doc_gen_python'']),
         packages := packages (setup_call [CHR 0x63, CHR 0xE9] [''api_doc_gen_python'']) \<rparr>
     = setup_call [CHR 0x63, CHR 0xE9] [''api_doc_gen_python'']"
proof -
  have same_readme: "cwd_files sample_env ''README.md'' = cwd_files other_env ''README.md''"
    and same_encoding: "text_decode sample_env = text_decode other_env"
    and same_found:
      "map_sum id (\<lambda>f. f ''python'') (import_setuptools sample_env)
       = map_sum id (\<lambda>f. f ''python'') (import_setuptools other_env)"
    by (simp_all add: sample_env_def other_env_def)
  have other_import: "import_setuptools sample_env \<noteq> import_setuptools other_env"
  proof
    assume "import_setuptools sample_env = import_setuptools other_env"
    then have "map_sum id (\<lambda>f. f ''.'') (import_setuptools sample_env)
        = map_sum id (\<lambda>f. f ''.'') (import_setuptools other_env)"
      by simp
    then show False by (simp add: sample_env_def other_env_def)
  qed
  have other_files: "cwd_files sample_env \<noteq> cwd_files other_env"
  proof
    assume "cwd_files sample_env = cwd_files other_env"
    then have "cwd_files sample_env ''LICENSE'' = cwd_files other_env ''LICENSE''"
      by simp
    then show False by (simp add: sample_env_def other_env_def)
  qed
  have same_outcome: "setup_py sample_env = setup_py other_env"
    using C9_determined_by_readme_encoding_and_packages [of sample_env other_env]
      same_readme same_encoding same_found
    by blast
  have decoded: "\<exists>bs. cwd_files sample_env ''README.md'' = Some (Regular bs)
          \<and> text_decode sample_env bs
            = Inr (long_description
                (setup_call ''# api-doc-gen-python'' [''api_doc_gen_python'']))"
    using C9_determined_by_readme_encoding_and_packages
      [of sample_env _ "setup_call ''# api-doc-gen-python'' [''api_doc_gen_python'']"]
      setup_py_sample
    by blast
  have literals: "(setup_call ''# api-doc-gen-python'' [''api_doc_gen_python''])
       \<lparr> long_description := long_description (setup_call [CHR 0x63, CHR 0xE9] [''api_doc_gen_python'']),
         packages := packages (setup_call [CHR 0x63, CHR 0xE9] [''api_doc_gen_python'']) \<rparr>
     = setup_call [CHR 0x63, CHR 0xE9] [''api_doc_gen_python'']"
    using C9_determined_by_readme_encoding_and_packages [of sample_env utf8_env
        "setup_call ''# api-doc-gen-python'' [''api_doc_gen_python'']"
        "setup_call [CHR 0x63, CHR 0xE9] [''api_doc_gen_python'']"]
      setup_py_sample setup_py_utf8
    by blast
  from same_readme same_encoding other_import other_files same_outcome decoded literals
  show ?thesis by blast
qed

end
